theory Spec2Isabelle
  imports Main
begin

section \<open>JavaScript values\<close>

text \<open>
  The session engine of \<^verbatim>\<open>src/index.js\<close> keeps its key/value store in a plain JavaScript
  object (\<^verbatim>\<open>this.values = {}\<close>), reads it with \<^verbatim>\<open>this.values[key]\<close>, writes it with
  \<^verbatim>\<open>this.values[key] = value\<close>, and moves it through \<^verbatim>\<open>JSON.stringify\<close> and
  \<^verbatim>\<open>JSON.parse\<close>. The values below are the ones these operations see.

  Strings are lists of 8-bit characters and numbers are integers. An ordinary object is the
  list of its own properties in creation order; its prototype is always \<^verbatim>\<open>Object.prototype\<close>.
  \<open>JIntrinsic\<close> names a built-in object of the engine (\<^verbatim>\<open>Object.prototype\<close>, its methods and
  the constructor \<^verbatim>\<open>Object\<close>), which an ordinary object inherits.
\<close>

datatype jsvalue =
    JUndefined
  | JNull
  | JBool bool
  | JNum int
  | JStr string
  | JArr "jsvalue list"
  | JObj "(string \<times> jsvalue) list"
  | JIntrinsic string

text \<open>
  What a JavaScript operation can throw. \<open>Thrown\<close> is a \<^verbatim>\<open>throw("...")\<close> of a string.
  \<open>Unmodelled\<close> is not an exception: it marks an input on which the behaviour of the
  engine lies outside this development (a number that is not a small integer, a property
  of an array or of a primitive, a change of an object's prototype). No theorem below
  draws a conclusion about the program from it.
\<close>

datatype js_error = TypeError | SyntaxError | Thrown string | Unmodelled

subsection \<open>Property access on ordinary objects\<close>

definition Object_prototype_methods :: "string list" where
  "Object_prototype_methods =
     [''__defineGetter__'', ''__defineSetter__'', ''hasOwnProperty'', ''__lookupGetter__'',
      ''__lookupSetter__'', ''isPrototypeOf'', ''propertyIsEnumerable'', ''toString'',
      ''valueOf'', ''toLocaleString'']"

text \<open>
  What an ordinary object yields for a name that is not one of its own properties: the
  property of \<^verbatim>\<open>Object.prototype\<close> of that name (the accessor \<^verbatim>\<open>__proto__\<close> returns the
  prototype itself), and \<^verbatim>\<open>undefined\<close> for every other name.
\<close>

definition Object_prototype :: "string \<Rightarrow> jsvalue" where
  "Object_prototype k =
     (if k = ''constructor'' then JIntrinsic ''Object''
      else if k = ''__proto__'' then JIntrinsic ''Object.prototype''
      else if k \<in> set Object_prototype_methods then JIntrinsic (''Object.prototype.'' @ k)
      else JUndefined)"

text \<open>Defining an own property: an existing one keeps its place, a new one goes last.\<close>

fun own_put :: "(string \<times> jsvalue) list \<Rightarrow> string \<Rightarrow> jsvalue \<Rightarrow> (string \<times> jsvalue) list" where
  "own_put [] k x = [(k, x)]"
| "own_put ((k', x') # ps) k x = (if k' = k then (k, x) # ps else (k', x') # own_put ps k x)"

text \<open>The read \<^verbatim>\<open>o[k]\<close>: a TypeError on \<^verbatim>\<open>undefined\<close> and \<^verbatim>\<open>null\<close>.\<close>

fun js_get :: "jsvalue \<Rightarrow> string \<Rightarrow> js_error + jsvalue" where
  "js_get JUndefined k = Inl TypeError"
| "js_get JNull k = Inl TypeError"
| "js_get (JObj ps) k = Inr (case map_of ps k of Some x \<Rightarrow> x | None \<Rightarrow> Object_prototype k)"
| "js_get (JBool b) k = Inl Unmodelled"
| "js_get (JNum n) k = Inl Unmodelled"
| "js_get (JStr s) k = Inl Unmodelled"
| "js_get (JArr xs) k = Inl Unmodelled"
| "js_get (JIntrinsic n) k = Inl Unmodelled"

definition is_object_or_null :: "jsvalue \<Rightarrow> bool" where
  "is_object_or_null x =
     (case x of JNull \<Rightarrow> True | JArr xs \<Rightarrow> True | JObj ps \<Rightarrow> True | JIntrinsic n \<Rightarrow> True
      | _ \<Rightarrow> False)"

text \<open>
  The write \<^verbatim>\<open>o[k] = x\<close> in non-strict code, returning the object after the write. On an
  ordinary object it defines or updates an own property, except for the name
  \<^verbatim>\<open>__proto__\<close> when it is not an own property: that is the setter inherited from
  \<^verbatim>\<open>Object.prototype\<close>, which ignores a primitive \<open>x\<close> and otherwise replaces the prototype.
  On \<^verbatim>\<open>undefined\<close> and \<^verbatim>\<open>null\<close> the write throws; on another primitive it does nothing.
\<close>

fun js_put :: "jsvalue \<Rightarrow> string \<Rightarrow> jsvalue \<Rightarrow> js_error + jsvalue" where
  "js_put JUndefined k x = Inl TypeError"
| "js_put JNull k x = Inl TypeError"
| "js_put (JObj ps) k x =
     (if map_of ps k = None \<and> k = ''__proto__''
      then (if is_object_or_null x then Inl Unmodelled else Inr (JObj ps))
      else Inr (JObj (own_put ps k x)))"
| "js_put (JBool b) k x = Inr (JBool b)"
| "js_put (JNum n) k x = Inr (JNum n)"
| "js_put (JStr s) k x = Inr (JStr s)"
| "js_put (JArr xs) k x = Inl Unmodelled"
| "js_put (JIntrinsic n) k x = Inl Unmodelled"

subsection \<open>JSON.stringify\<close>

definition dq :: char where
  "dq = CHR 0x22"

definition bs :: char where
  "bs = CHR 0x5C"

definition digit_char :: "nat \<Rightarrow> char" where
  "digit_char d =
     (if d = 0 then CHR ''0'' else if d = 1 then CHR ''1'' else if d = 2 then CHR ''2''
      else if d = 3 then CHR ''3'' else if d = 4 then CHR ''4'' else if d = 5 then CHR ''5''
      else if d = 6 then CHR ''6'' else if d = 7 then CHR ''7'' else if d = 8 then CHR ''8''
      else if d = 9 then CHR ''9'' else if d = 10 then CHR ''a'' else if d = 11 then CHR ''b''
      else if d = 12 then CHR ''c'' else if d = 13 then CHR ''d'' else if d = 14 then CHR ''e''
      else CHR ''f'')"

fun nat_digits :: "nat \<Rightarrow> string" where
  "nat_digits n =
     (if n < 10 then [digit_char n] else nat_digits (n div 10) @ [digit_char (n mod 10)])"

declare nat_digits.simps [simp del]

definition int_digits :: "int \<Rightarrow> string" where
  "int_digits n = (if n < 0 then CHR ''-'' # nat_digits (nat (- n)) else nat_digits (nat n))"

text \<open>The escapes of a JSON string literal, as \<^verbatim>\<open>JSON.stringify\<close> writes them.\<close>

definition json_escape :: "char \<Rightarrow> string" where
  "json_escape c =
     (if c = dq then [bs, dq]
      else if c = bs then [bs, bs]
      else if c = CHR 0x08 then [bs, CHR ''b'']
      else if c = CHR 0x09 then [bs, CHR ''t'']
      else if c = CHR 0x0A then [bs, CHR ''n'']
      else if c = CHR 0x0C then [bs, CHR ''f'']
      else if c = CHR 0x0D then [bs, CHR ''r'']
      else if (of_char c :: nat) < 32
        then [bs, CHR ''u'', CHR ''0'', CHR ''0'',
              digit_char (of_char c div 16), digit_char (of_char c mod 16)]
      else [c])"

definition json_quote :: "string \<Rightarrow> string" where
  "json_quote s = dq # concat (map json_escape s) @ [dq]"

fun join :: "string list \<Rightarrow> string" where
  "join [] = []"
| "join [t] = t"
| "join (t # u # ts) = t @ CHR '','' # join (u # ts)"

text \<open>
  The own property names that are array indices (canonical decimal numerals below
  \<open>2^32 - 1\<close>) are enumerated first, in ascending order; the others follow in creation order.
\<close>

definition is_digit :: "char \<Rightarrow> bool" where
  "is_digit c = (48 \<le> (of_char c :: nat) \<and> (of_char c :: nat) \<le> 57)"

definition digits_value :: "string \<Rightarrow> nat" where
  "digits_value ds = foldl (\<lambda>n c. 10 * n + (of_char c - 48)) 0 ds"

definition is_array_index :: "string \<Rightarrow> bool" where
  "is_array_index k =
     (k \<noteq> [] \<and> list_all is_digit k \<and> (k = ''0'' \<or> hd k \<noteq> CHR ''0'')
      \<and> digits_value k < 4294967295)"

definition own_property_order :: "(string \<times> 'a) list \<Rightarrow> (string \<times> 'a) list" where
  "own_property_order ps =
     sort_key (\<lambda>p. digits_value (fst p)) (filter (\<lambda>p. is_array_index (fst p)) ps)
     @ filter (\<lambda>p. \<not> is_array_index (fst p)) ps"

definition is_callable :: "jsvalue \<Rightarrow> bool" where
  "is_callable x =
     (case x of
        JIntrinsic n \<Rightarrow>
          n = ''Object'' \<or> n \<in> set (map (\<lambda>m. ''Object.prototype.'' @ m) Object_prototype_methods)
      | _ \<Rightarrow> False)"

text \<open>
  The text of a value, or \<open>None\<close> where \<^verbatim>\<open>JSON.stringify\<close> yields \<^verbatim>\<open>undefined\<close>
  (for \<^verbatim>\<open>undefined\<close> and for a function). An object with a callable \<^verbatim>\<open>toJSON\<close> property
  would have it called: that is not modelled.
\<close>

fun stringify_value :: "jsvalue \<Rightarrow> js_error + string option"
  and stringify_elements :: "jsvalue list \<Rightarrow> js_error + string list"
  and stringify_properties :: "(string \<times> jsvalue) list \<Rightarrow> js_error + (string \<times> string) list"
where
  "stringify_value JUndefined = Inr None"
| "stringify_value JNull = Inr (Some ''null'')"
| "stringify_value (JBool b) = Inr (Some (if b then ''true'' else ''false''))"
| "stringify_value (JNum n) =
     (if \<bar>n\<bar> \<le> 9007199254740992 then Inr (Some (int_digits n)) else Inl Unmodelled)"
| "stringify_value (JStr s) = Inr (Some (json_quote s))"
| "stringify_value (JArr xs) =
     (case stringify_elements xs of
        Inl e \<Rightarrow> Inl e
      | Inr ts \<Rightarrow> Inr (Some (CHR ''['' # join ts @ '']'')))"
| "stringify_value (JObj ps) =
     (if (case map_of ps ''toJSON'' of Some f \<Rightarrow> is_callable f | None \<Rightarrow> False)
      then Inl Unmodelled
      else (case stringify_properties ps of
              Inl e \<Rightarrow> Inl e
            | Inr kts \<Rightarrow>
                Inr (Some (CHR ''{'' #
                  join (map (\<lambda>p. json_quote (fst p) @ CHR '':'' # snd p) (own_property_order kts))
                  @ ''}''))))"
| "stringify_value (JIntrinsic n) =
     (if n = ''Object.prototype'' then Inr (Some ''{}'')
      else if is_callable (JIntrinsic n) then Inr None
      else Inl Unmodelled)"
| "stringify_elements [] = Inr []"
| "stringify_elements (x # xs) =
     (case stringify_value x of
        Inl e \<Rightarrow> Inl e
      | Inr t \<Rightarrow>
          (case stringify_elements xs of
             Inl e \<Rightarrow> Inl e
           | Inr ts \<Rightarrow> Inr ((case t of None \<Rightarrow> ''null'' | Some u \<Rightarrow> u) # ts)))"
| "stringify_properties [] = Inr []"
| "stringify_properties (p # ps) =
     (case stringify_value (snd p) of
        Inl e \<Rightarrow> Inl e
      | Inr t \<Rightarrow>
          (case stringify_properties ps of
             Inl e \<Rightarrow> Inl e
           | Inr kts \<Rightarrow> Inr (case t of None \<Rightarrow> kts | Some u \<Rightarrow> (fst p, u) # kts)))"

text \<open>\<^verbatim>\<open>JSON.stringify(v)\<close>: a string, or \<^verbatim>\<open>undefined\<close>.\<close>

definition JSON_stringify :: "jsvalue \<Rightarrow> js_error + jsvalue" where
  "JSON_stringify v =
     (case stringify_value v of
        Inl e \<Rightarrow> Inl e
      | Inr None \<Rightarrow> Inr JUndefined
      | Inr (Some t) \<Rightarrow> Inr (JStr t))"

subsection \<open>JSON.parse\<close>

text \<open>
  A recursive-descent reader of JSON text. It throws \<open>SyntaxError\<close> where the text is not
  JSON. It answers \<open>Unmodelled\<close> on the JSON this development has no value for: a number
  with a fraction or an exponent or beyond \<open>2^53\<close>, and a \<^verbatim>\<open>\u\<close> escape above \<^verbatim>\<open>00FF\<close>.
  The fuel bounds the depth of nesting; \<open>JSON_parse_text\<close> starts with more fuel than the
  text has characters.
\<close>

definition is_ws :: "char \<Rightarrow> bool" where
  "is_ws c = (c = CHR '' '' \<or> c = CHR 0x09 \<or> c = CHR 0x0A \<or> c = CHR 0x0D)"

fun skip_ws :: "string \<Rightarrow> string" where
  "skip_ws [] = []"
| "skip_ws (c # cs) = (if is_ws c then skip_ws cs else c # cs)"

definition hex_value :: "char \<Rightarrow> nat option" where
  "hex_value c =
     (let n = (of_char c :: nat) in
      if 48 \<le> n \<and> n \<le> 57 then Some (n - 48)
      else if 97 \<le> n \<and> n \<le> 102 then Some (n - 87)
      else if 65 \<le> n \<and> n \<le> 70 then Some (n - 55)
      else None)"

definition hex4 :: "char \<Rightarrow> char \<Rightarrow> char \<Rightarrow> char \<Rightarrow> nat option" where
  "hex4 a b c d =
     (case (hex_value a, hex_value b, hex_value c, hex_value d) of
        (Some w, Some x, Some y, Some z) \<Rightarrow> Some (((w * 16 + x) * 16 + y) * 16 + z)
      | _ \<Rightarrow> None)"

definition escape_char :: "char \<Rightarrow> char option" where
  "escape_char e =
     (if e = dq then Some dq
      else if e = bs then Some bs
      else if e = CHR ''/'' then Some (CHR ''/'')
      else if e = CHR ''b'' then Some (CHR 0x08)
      else if e = CHR ''f'' then Some (CHR 0x0C)
      else if e = CHR ''n'' then Some (CHR 0x0A)
      else if e = CHR ''r'' then Some (CHR 0x0D)
      else if e = CHR ''t'' then Some (CHR 0x09)
      else None)"

definition cons_char :: "char \<Rightarrow> js_error + (string \<times> string) \<Rightarrow> js_error + (string \<times> string)" where
  "cons_char x m = (case m of Inl e \<Rightarrow> Inl e | Inr (s, rest) \<Rightarrow> Inr (x # s, rest))"

text \<open>The characters of a string literal after its opening quote, and the text after it.\<close>

fun parse_chars :: "string \<Rightarrow> js_error + (string \<times> string)" where
  "parse_chars [] = Inl SyntaxError"
| "parse_chars (c # cs) =
     (if c = dq then Inr ([], cs)
      else if c = bs then
        (case cs of
           [] \<Rightarrow> Inl SyntaxError
         | e # r \<Rightarrow>
             if e = CHR ''u'' then
               (case r of
                  h1 # h2 # h3 # h4 # r' \<Rightarrow>
                    (case hex4 h1 h2 h3 h4 of
                       None \<Rightarrow> Inl SyntaxError
                     | Some n \<Rightarrow>
                         if n < 256 then cons_char (char_of n) (parse_chars r')
                         else Inl Unmodelled)
                | _ \<Rightarrow> Inl SyntaxError)
             else
               (case escape_char e of
                  None \<Rightarrow> Inl SyntaxError
                | Some x \<Rightarrow> cons_char x (parse_chars r)))
      else if (of_char c :: nat) < 32 then Inl SyntaxError
      else cons_char c (parse_chars cs))"

definition parse_number :: "string \<Rightarrow> js_error + (jsvalue \<times> string)" where
  "parse_number s =
     (let neg = (take 1 s = ''-'');
          r = (if neg then drop 1 s else s);
          ds = takeWhile is_digit r;
          rest = dropWhile is_digit r
      in if ds = [] then Inl SyntaxError
         else if hd ds = CHR ''0'' \<and> 1 < length ds then Inl SyntaxError
         else if take 1 rest = ''.'' \<or> take 1 rest = ''e'' \<or> take 1 rest = ''E'' then Inl Unmodelled
         else if 9007199254740992 < digits_value ds then Inl Unmodelled
         else Inr (JNum (if neg then - int (digits_value ds) else int (digits_value ds)), rest))"

fun parse_value :: "nat \<Rightarrow> string \<Rightarrow> js_error + (jsvalue \<times> string)"
  and parse_members :: "nat \<Rightarrow> (string \<times> jsvalue) list \<Rightarrow> string \<Rightarrow> js_error + (jsvalue \<times> string)"
  and parse_elements :: "nat \<Rightarrow> jsvalue list \<Rightarrow> string \<Rightarrow> js_error + (jsvalue \<times> string)"
where
  "parse_value fuel s =
     (if fuel = 0 then Inl Unmodelled
      else
        (case skip_ws s of
           [] \<Rightarrow> Inl SyntaxError
         | c # cs \<Rightarrow>
             if c = CHR ''{'' then
               (case skip_ws cs of
                  [] \<Rightarrow> Inl SyntaxError
                | d # ds \<Rightarrow>
                    if d = CHR ''}'' then Inr (JObj [], ds)
                    else parse_members (fuel - 1) [] (d # ds))
             else if c = CHR ''['' then
               (case skip_ws cs of
                  [] \<Rightarrow> Inl SyntaxError
                | d # ds \<Rightarrow>
                    if d = CHR '']'' then Inr (JArr [], ds)
                    else parse_elements (fuel - 1) [] (d # ds))
             else if c = dq then
               (case parse_chars cs of
                  Inl e \<Rightarrow> Inl e
                | Inr (str, r) \<Rightarrow> Inr (JStr str, r))
             else if c = CHR ''-'' \<or> is_digit c then parse_number (c # cs)
             else if take 4 (c # cs) = ''true'' then Inr (JBool True, drop 4 (c # cs))
             else if take 5 (c # cs) = ''false'' then Inr (JBool False, drop 5 (c # cs))
             else if take 4 (c # cs) = ''null'' then Inr (JNull, drop 4 (c # cs))
             else Inl SyntaxError))"
| "parse_members fuel acc s =
     (if fuel = 0 then Inl Unmodelled
      else
        (case s of
           [] \<Rightarrow> Inl SyntaxError
         | c # cs \<Rightarrow>
             if c \<noteq> dq then Inl SyntaxError
             else
               (case parse_chars cs of
                  Inl e \<Rightarrow> Inl e
                | Inr (key, r) \<Rightarrow>
                    (case skip_ws r of
                       [] \<Rightarrow> Inl SyntaxError
                     | d # ds \<Rightarrow>
                         if d \<noteq> CHR '':'' then Inl SyntaxError
                         else
                           (case parse_value (fuel - 1) ds of
                              Inl e \<Rightarrow> Inl e
                            | Inr (v, r2) \<Rightarrow>
                                (case skip_ws r2 of
                                   [] \<Rightarrow> Inl SyntaxError
                                 | e # es \<Rightarrow>
                                     if e = CHR '','' then
                                       parse_members (fuel - 1) (own_put acc key v) (skip_ws es)
                                     else if e = CHR ''}'' then Inr (JObj (own_put acc key v), es)
                                     else Inl SyntaxError))))))"
| "parse_elements fuel acc s =
     (if fuel = 0 then Inl Unmodelled
      else
        (case parse_value (fuel - 1) s of
           Inl e \<Rightarrow> Inl e
         | Inr (v, r) \<Rightarrow>
             (case skip_ws r of
                [] \<Rightarrow> Inl SyntaxError
              | e # es \<Rightarrow>
                  if e = CHR '','' then parse_elements (fuel - 1) (acc @ [v]) es
                  else if e = CHR '']'' then Inr (JArr (acc @ [v]), es)
                  else Inl SyntaxError)))"

declare parse_value.simps [simp del]
declare parse_members.simps [simp del]
declare parse_elements.simps [simp del]

definition JSON_parse_text :: "string \<Rightarrow> js_error + jsvalue" where
  "JSON_parse_text s =
     (case parse_value (Suc (length s)) s of
        Inl e \<Rightarrow> Inl e
      | Inr (v, r) \<Rightarrow> if skip_ws r = [] then Inr v else Inl SyntaxError)"

text \<open>
  \<^verbatim>\<open>JSON.parse(x)\<close> for the content of a nullable text column: a string, or \<^verbatim>\<open>null\<close>
  (\<open>None\<close>), which is converted to the string \<^verbatim>\<open>"null"\<close> first.
\<close>

definition JSON_parse :: "string option \<Rightarrow> js_error + jsvalue" where
  "JSON_parse x = JSON_parse_text (case x of None \<Rightarrow> ''null'' | Some s \<Rightarrow> s)"


section \<open>The world around a session\<close>

text \<open>
  A session talks to four collaborators: the logger (\<^verbatim>\<open>this.logger.log\<close>), the database
  connection (\<^verbatim>\<open>this.db.query\<close>), the clock (\<^verbatim>\<open>Date.now()\<close>) and the token generator
  (\<^verbatim>\<open>uid.sync(24)\<close>); and it calls the callback that \<^verbatim>\<open>loadSession\<close> was given. The
  world records the calls made, in order, and holds the answers of the clock and of the
  generator: reading number \<open>n\<close> of the clock is \<open>clock n\<close> (milliseconds), the \<open>n\<close>-th
  token generated is \<open>uids n\<close>.
\<close>

datatype callback = Function nat | Not_a_function

text \<open>
  What a query was given as its completion handler: the handler of \<^verbatim>\<open>_saveSession\<close>, or
  the handler of \<^verbatim>\<open>_loadSession\<close>, which is bound to the callback of the load.
\<close>

datatype continuation = Saved | Loaded callback

record world =
  clock :: "nat \<Rightarrow> int"
  ticks :: nat
  uids :: "nat \<Rightarrow> string"
  uid_calls :: nat
  logged :: "(string \<times> string) list"
  queries :: "(string \<times> jsvalue list \<times> continuation) list"
  called :: "(nat \<times> string option \<times> string) list"

section \<open>The session engine\<close>

text \<open>
  The logger of the default options, \<^verbatim>\<open>{log: function(){}}\<close>, or an object of the caller.
\<close>

datatype logger = Builtin_logger | Caller_logger nat

text \<open>The database connection: \<^verbatim>\<open>db.format(sql, params)\<close> is the caller's.\<close>

record connection =
  format :: "string \<Rightarrow> jsvalue list \<Rightarrow> string"

text \<open>
  The options object. A property the object does not have is \<open>JUndefined\<close>, or \<open>None\<close>.
\<close>

record options =
  expiration :: jsvalue
  logger_opt :: "logger option"
  db_opt :: "connection option"

text \<open>
  The fields of a \<^verbatim>\<open>Session\<close>. The token is a string, or \<^verbatim>\<open>undefined\<close> (\<open>None\<close>) when
  \<^verbatim>\<open>loadSession\<close> was called with one.
\<close>

record session =
  options :: options
  db :: connection
  logger :: logger
  session_values :: jsvalue
  token :: "string option"
  expires :: int
  world :: world

text \<open>A row of the table \<^verbatim>\<open>session\<close>; the column \<^verbatim>\<open>data\<close> may be NULL.\<close>

record row =
  sessionId :: string
  expires_col :: int
  data :: "string option"

text \<open>
  The error object a query hands to its handler, given by the text \<^verbatim>\<open>util.inspect\<close> prints
  for it; \<open>None\<close> is \<^verbatim>\<open>null\<close>.
\<close>

datatype db_error = Db_error string

definition util_inspect :: "db_error option \<Rightarrow> string" where
  "util_inspect e = (case e of None \<Rightarrow> ''null'' | Some (Db_error t) \<Rightarrow> t)"

definition nl :: char where
  "nl = CHR 0x0A"

subsection \<open>Calls to the collaborators\<close>

definition log :: "string \<Rightarrow> string \<Rightarrow> session \<Rightarrow> session" where
  "log level msg s = s\<lparr>world := (world s)\<lparr>logged := logged (world s) @ [(level, msg)]\<rparr>\<rparr>"

definition Date_now :: "session \<Rightarrow> int \<times> session" where
  "Date_now s =
     (clock (world s) (ticks (world s)), s\<lparr>world := (world s)\<lparr>ticks := Suc (ticks (world s))\<rparr>\<rparr>)"

definition uid_sync :: "session \<Rightarrow> string \<times> session" where
  "uid_sync s =
     (uids (world s) (uid_calls (world s)),
      s\<lparr>world := (world s)\<lparr>uid_calls := Suc (uid_calls (world s))\<rparr>\<rparr>)"

definition db_query :: "string \<Rightarrow> jsvalue list \<Rightarrow> continuation \<Rightarrow> session \<Rightarrow> session" where
  "db_query sql params k s =
     s\<lparr>world := (world s)\<lparr>queries := queries (world s) @ [(sql, params, k)]\<rparr>\<rparr>"

text \<open>Calling \<^verbatim>\<open>callback(token, message)\<close>: a TypeError when it is not a function.\<close>

definition invoke :: "callback \<Rightarrow> string option \<Rightarrow> string \<Rightarrow> session \<Rightarrow> (js_error \<times> session) + session" where
  "invoke cb tok msg s =
     (case cb of
        Function f \<Rightarrow> Inr (s\<lparr>world := (world s)\<lparr>called := called (world s) @ [(f, tok, msg)]\<rparr>\<rparr>)
      | Not_a_function \<Rightarrow> Inl (TypeError, s))"

definition token_value :: "string option \<Rightarrow> jsvalue" where
  "token_value tok = (case tok of None \<Rightarrow> JUndefined | Some t \<Rightarrow> JStr t)"

text \<open>\<^verbatim>\<open>Math.round(t / 1000)\<close> for an integer \<open>t\<close>: halves round up.\<close>

definition round_div_1000 :: "int \<Rightarrow> int" where
  "round_div_1000 t = (t + 500) div 1000"

subsection \<open>The private methods\<close>

definition priv_dbCreateError :: "session \<Rightarrow> string \<times> session" where
  "priv_dbCreateError s =
     (''CREATE TABLE `session` ('' @ [nl] @
      ''    `sessionId` varchar(32) COLLATE utf8_bin NOT NULL,'' @ [nl] @
      ''    `expires` int(11) unsigned NOT NULL,'' @ [nl] @
      ''    `data` text COLLATE utf8_bin,'' @ [nl] @
      ''    PRIMARY KEY (`sessionId`)'' @ [nl] @
      '') ENGINE=InnoDB DEFAULT CHARSET=utf8 COLLATE=utf8_bin;'',
      log ''debug'' ''Socket.io-mysql-session: display db create script'' s)"

text \<open>
  \<^verbatim>\<open>Math.round((new Date(Date.now() + this.options.expiration).getTime() / 1000))\<close>.
  \<^verbatim>\<open>Date.now()\<close> is an integer and so is the sum when \<^verbatim>\<open>options.expiration\<close> is one;
  the sum with anything else is not modelled.
\<close>

definition priv_generateExpires :: "session \<Rightarrow> (js_error \<times> session) + (int \<times> session)" where
  "priv_generateExpires s =
     (let s1 = log ''debug'' ''Socket.io-mysql-session: generating expires'' s;
          (now, s2) = Date_now s1
      in case expiration (options s2) of
           JNum ttl \<Rightarrow> Inr (round_div_1000 (now + ttl), s2)
         | _ \<Rightarrow> Inl (Unmodelled, s2))"

definition upsert_sql :: string where
  "upsert_sql =
     ''INSERT INTO session '' @ ''(sessionId, expires, data) '' @ ''VALUES '' @ ''(?, ?, ?) '' @
     ''ON DUPLICATE KEY UPDATE '' @ ''expires = ?, '' @ ''data = ?''"

definition select_sql :: string where
  "select_sql = ''SELECT * FROM session '' @ ''WHERE '' @ ''sessionId = ?''"

definition priv_saveSession :: "session \<Rightarrow> (js_error \<times> session) + session" where
  "priv_saveSession s =
     (let s1 = log ''debug'' ''Socket.io-mysql-session: saving session'' s
      in case JSON_stringify (session_values s1) of
           Inl e \<Rightarrow> Inl (e, s1)
         | Inr sessionData \<Rightarrow>
             (case priv_generateExpires s1 of
                Inl err \<Rightarrow> Inl err
              | Inr (expires', s2) \<Rightarrow>
                  (let params = [token_value (token s2), JNum expires', sessionData,
                                 JNum expires', sessionData];
                       s3 = log ''debug''
                              (''Socket.io-mysql-session: query: '' @ format (db s2) upsert_sql params) s2
                   in if token s3 \<noteq> Some ''''
                      then Inr (db_query upsert_sql params Saved s3)
                      else Inr (log ''error'' ''Token is empty.'' s3))))"

text \<open>
  The completion handler of the query of \<^verbatim>\<open>_saveSession\<close>; \<open>results_defined\<close> says whether
  the driver passed a result.
\<close>

definition priv_saveSession_done :: "db_error option \<Rightarrow> bool \<Rightarrow> session \<Rightarrow> session" where
  "priv_saveSession_done error results_defined s =
     (if \<not> results_defined
      then (let (script, s1) = priv_dbCreateError s;
                s2 = log ''error''
                       (''Socket.io-mysql-session: unable to save session. You might need to create the table. ''
                        @ [nl] @ script) s1
            in log ''error'' (util_inspect error) s2)
      else s)"

definition priv_isExpired :: "session \<Rightarrow> bool \<times> session" where
  "priv_isExpired s =
     (let s1 = log ''debug'' ''Socket.io-mysql-session: _isExpired'' s;
          (t, s2) = Date_now s1;
          now = round_div_1000 t
      in (if now > expires s2 then True else False, s2))"

text \<open>\<^verbatim>\<open>_loadSession\<close> up to the call of \<^verbatim>\<open>this.db.query\<close>.\<close>

definition priv_loadSession :: "callback \<Rightarrow> session \<Rightarrow> session" where
  "priv_loadSession cb s =
     (let s1 = log ''debug'' ''Socket.io-mysql-session: loading session'' s;
          s2 = log ''debug''
                 (''Socket.io-mysql-session: query: '' @ format (db s1) select_sql [token_value (token s1)]) s1
      in db_query select_sql [token_value (token s2)] (Loaded cb) s2)"

text \<open>
  The completion handler of the query of \<^verbatim>\<open>_loadSession\<close>: \<open>results\<close> is the list of rows,
  or \<open>None\<close> when the driver passed \<^verbatim>\<open>undefined\<close>.
\<close>

definition priv_loadSession_done ::
  "callback \<Rightarrow> db_error option \<Rightarrow> row list option \<Rightarrow> session \<Rightarrow> (js_error \<times> session) + session" where
  "priv_loadSession_done cb error results s =
     (let branch =
            (case results of
               Some (r # rs) \<Rightarrow>
                 (case JSON_parse (data r) of
                    Inl e \<Rightarrow> Inl (e, s)
                  | Inr v \<Rightarrow>
                      (let s1 = s\<lparr>session_values := v, expires := expires_col r\<rparr>;
                           (expired, s2) = priv_isExpired s1
                       in if expired
                          then Inr (True, ''Session Expired'',
                                    log ''debug'' ''Socket.io-mysql-session: session expired'' s2)
                          else Inr (False, '''', s2)))
             | Some [] \<Rightarrow>
                 Inr (True, ''Session Not Found'',
                      log ''debug'' ''Socket.io-mysql-session: session expired'' s)
             | None \<Rightarrow>
                 (let message = ''Something terrible happened'' @ [nl] @ util_inspect error
                  in Inr (False, message,
                          log ''error'' (''Socket.io-mysql-session: '' @ message) (s\<lparr>token := Some ''''\<rparr>))))
      in case branch of
           Inl err \<Rightarrow> Inl err
         | Inr (generateNew, message, s3) \<Rightarrow>
             (case (if generateNew
                    then (let (u, s4) = uid_sync s3
                          in case priv_generateExpires (s4\<lparr>token := Some u\<rparr>) of
                               Inl err \<Rightarrow> Inl err
                             | Inr (e, s5) \<Rightarrow> priv_saveSession (s5\<lparr>expires := e\<rparr>))
                    else Inr s3) of
                Inl err \<Rightarrow> Inl err
              | Inr s6 \<Rightarrow>
                  (case cb of
                     Function f \<Rightarrow> invoke cb (token s6) message s6
                   | Not_a_function \<Rightarrow> Inr s6)))"

subsection \<open>The constructor\<close>

definition default_options :: options where
  "default_options =
     \<lparr>expiration = JNum 86400000, logger_opt = Some Builtin_logger, db_opt = None\<rparr>"

text \<open>
  \<^verbatim>\<open>_.extend(destination, source)\<close> copies every property of the source onto the
  destination and returns the destination.
\<close>

definition extend :: "options \<Rightarrow> options \<Rightarrow> options" where
  "extend destination source =
     \<lparr>expiration = (if expiration source = JUndefined then expiration destination
                     else expiration source),
      logger_opt = (case logger_opt source of None \<Rightarrow> logger_opt destination | Some l \<Rightarrow> Some l),
      db_opt = (case db_opt source of None \<Rightarrow> db_opt destination | Some d \<Rightarrow> Some d)\<rparr>"

definition empty_options :: options where
  "empty_options = \<lparr>expiration = JUndefined, logger_opt = None, db_opt = None\<rparr>"

text \<open>
  \<^verbatim>\<open>new Session(options)\<close> in the world \<open>w\<close>; \<open>None\<close> is a call without options. The result
  is the caller's options object as the constructor leaves it, and the session.
\<close>

definition Session :: "options option \<Rightarrow> world \<Rightarrow> js_error + (options \<times> session)" where
  "Session opts w =
     (let this_options = extend (case opts of None \<Rightarrow> empty_options | Some given \<Rightarrow> given) default_options
      in case opts of
           None \<Rightarrow> Inl TypeError
         | Some given \<Rightarrow>
             (case db_opt this_options of
                None \<Rightarrow> Inl (Thrown ''Database connection must be provided through options.db'')
              | Some d \<Rightarrow>
                  (case logger_opt this_options of
                     None \<Rightarrow> Inl TypeError
                   | Some l \<Rightarrow>
                       (let s = \<lparr>options = this_options, db = d, logger = l,
                                 session_values = JObj [], token = Some '''', expires = 0,
                                 world = w\<rparr>
                        in case priv_generateExpires s of
                             Inl (e, s') \<Rightarrow> Inl e
                           | Inr (e, s') \<Rightarrow> Inr (this_options, s'\<lparr>expires := e\<rparr>)))))"

subsection \<open>The public methods\<close>

definition set_value :: "string \<Rightarrow> jsvalue \<Rightarrow> session \<Rightarrow> (js_error \<times> session) + session" where
  "set_value key v s =
     (let s1 = log ''debug'' (''Socket.io-mysql-session: setting '' @ key @ '' to session.'') s
      in case js_put (session_values s1) key v of
           Inl e \<Rightarrow> Inl (e, s1)
         | Inr obj \<Rightarrow> priv_saveSession (s1\<lparr>session_values := obj\<rparr>))"

definition get_value :: "string \<Rightarrow> session \<Rightarrow> (js_error \<times> session) + (jsvalue \<times> session)" where
  "get_value key s =
     (let s1 = log ''debug'' (''Socket.io-mysql-session: getting '' @ key @ '' from session.'') s
      in case js_get (session_values s1) key of
           Inl e \<Rightarrow> Inl (e, s1)
         | Inr x \<Rightarrow> Inr (if x = JUndefined then JStr '''' else x, s1))"

definition loadSession :: "string option \<Rightarrow> callback \<Rightarrow> session \<Rightarrow> (js_error \<times> session) + session" where
  "loadSession tok cb s =
     (let s1 = log ''debug'' ''Socket.io-mysql-session: loadSession'' s
      in if tok = None \<and> tok = Some ''''
         then (let (u, s2) = uid_sync s1
               in case priv_saveSession (s2\<lparr>token := Some u\<rparr>) of
                    Inl err \<Rightarrow> Inl err
                  | Inr s3 \<Rightarrow> invoke cb tok '''' s3)
         else Inr (priv_loadSession cb (s1\<lparr>token := tok\<rparr>)))"

definition clearSession :: "session \<Rightarrow> (js_error \<times> session) + session" where
  "clearSession s = priv_saveSession (s\<lparr>session_values := JObj []\<rparr>)"

subsection \<open>The middleware\<close>

text \<open>
  \<^verbatim>\<open>ioSession(options)\<close> extends the caller's options in the same way and returns the
  middleware, which closes over that object; \<open>None\<close> is a call without options.
\<close>

definition ioSession :: "options option \<Rightarrow> js_error + options" where
  "ioSession opts =
     (case opts of
        None \<Rightarrow> Inl TypeError
      | Some given \<Rightarrow> Inr (extend given default_options))"

text \<open>The middleware on a new socket: \<^verbatim>\<open>socket.session = new Session(options)\<close>.\<close>

definition middleware :: "options \<Rightarrow> world \<Rightarrow> js_error + (options \<times> session)" where
  "middleware opts w =
     Session (Some opts)
       (w\<lparr>logged := logged w @ [(''debug'', ''Socket.io-mysql-session: middleware bound to socket'')]\<rparr>)"

text \<open>
  The listener of \<^verbatim>\<open>getToken\<close>. \<open>params\<close> is the message of the client: \<open>None\<close> when it
  sent none, else its \<^verbatim>\<open>token\<close> property. The callback, \<open>Function 0\<close>, emits \<^verbatim>\<open>gotToken\<close>.
\<close>

definition getToken :: "string option option \<Rightarrow> session \<Rightarrow> (js_error \<times> session) + session" where
  "getToken params s =
     (let userToken = (case params of None \<Rightarrow> Some '''' | Some t \<Rightarrow> t);
          s1 = log ''debug''
                 (''Socket.io-mysql-session: getToken ['' @
                  (case userToken of None \<Rightarrow> ''undefined'' | Some t \<Rightarrow> t) @ '']'') s
      in loadSession userToken (Function 0) s1)"

section \<open>Concrete scenarios\<close>

text \<open>
  A world whose clock advances by one second at every reading, a connection, and the
  options of the README's example (a caller's logger and \<^verbatim>\<open>expiration: 3600\<close>).
\<close>

definition clock0 :: "nat \<Rightarrow> int" where
  "clock0 n = 1000000 + 1000 * int n"

definition uids0 :: "nat \<Rightarrow> string" where
  "uids0 n = (if n = 0 then ''k3J8fQ2mZx7LpA0wYb5NcE9dRg1HsT4u'' else ''u4TsH1gRd9EcN5bYw0ApL7xZm2Qf8J3k'')"

definition connection0 :: connection where
  "connection0 = \<lparr>format = (\<lambda>sql params. sql)\<rparr>"

definition world0 :: world where
  "world0 = \<lparr>clock = clock0, ticks = 0, uids = uids0, uid_calls = 0,
             logged = [], queries = [], called = []\<rparr>"

definition options0 :: options where
  "options0 = \<lparr>expiration = JNum 3600, logger_opt = Some (Caller_logger 1),
               db_opt = Some connection0\<rparr>"

text \<open>The session that \<^verbatim>\<open>new Session(options0)\<close> builds in \<open>world0\<close>.\<close>

definition session0 :: session where
  "session0 =
     \<lparr>options = \<lparr>expiration = JNum 86400000, logger_opt = Some Builtin_logger,
                  db_opt = Some connection0\<rparr>,
      db = connection0, logger = Builtin_logger, session_values = JObj [],
      token = Some '''', expires = 87400,
      world = world0\<lparr>ticks := 1,
                      logged := [(''debug'', ''Socket.io-mysql-session: generating expires'')]\<rparr>\<rparr>"

text \<open>A token a client presents, the text \<^verbatim>\<open>{"userId":"42"}\<close>, and a row that holds it.\<close>

definition token0 :: string where
  "token0 = ''u4TsH1gRd9EcN5bYw0ApL7xZm2Qf8J3k''"

definition json0 :: string where
  "json0 = ''{'' @ [dq] @ ''userId'' @ [dq] @ '':'' @ [dq] @ ''42'' @ [dq] @ ''}''"

definition row0 :: row where
  "row0 = \<lparr>sessionId = token0, expires_col = 900, data = Some json0\<rparr>"

text \<open>The state an operation leaves, whether it returned or threw.\<close>

definition final :: "(js_error \<times> session) + session \<Rightarrow> session" where
  "final r = (case r of Inl (e, s) \<Rightarrow> s | Inr s \<Rightarrow> s)"

lemma stringify_empty_object: "JSON_stringify (JObj []) = Inr (JStr ''{}'')"
  by (simp add: JSON_stringify_def own_property_order_def)

section \<open>Evaluation\<close>

text \<open>
  The definitions that a concrete run of the engine unfolds, and the ones that a concrete
  run of \<^verbatim>\<open>JSON.parse\<close> and \<^verbatim>\<open>JSON.stringify\<close> unfolds.
\<close>

lemmas engine_defs = priv_saveSession_def priv_generateExpires_def priv_isExpired_def
  priv_loadSession_def priv_loadSession_done_def loadSession_def clearSession_def set_value_def
  get_value_def log_def Date_now_def uid_sync_def db_query_def invoke_def Let_def token_value_def

lemmas json_eval = JSON_parse_def JSON_parse_text_def parse_value.simps parse_members.simps
  parse_elements.simps parse_number_def cons_char_def escape_char_def hex4_def hex_value_def
  dq_def bs_def is_ws_def is_digit_def digits_value_def JSON_stringify_def own_property_order_def
  is_array_index_def json_quote_def json_escape_def int_digits_def nat_digits.simps digit_char_def
  is_callable_def Object_prototype_methods_def

lemma parse_json0: "JSON_parse (Some json0) = Inr (JObj [(''userId'', JStr ''42'')])"
  by (simp add: json0_def json_eval)

lemma stringify_json0: "JSON_stringify (JObj [(''userId'', JStr ''42'')]) = Inr (JStr json0)"
  by (simp add: json0_def json_eval)

lemma parse_truncated: "JSON_parse (Some ''{'') = Inl SyntaxError"
  by (simp add: json_eval)

lemma parse_null_column: "JSON_parse None = Inr JNull"
  by (simp add: json_eval)

lemma map_of_own_put: "map_of (own_put ps k v) k' = (if k' = k then Some v else map_of ps k')"
  by (induction ps k v rule: own_put.induct) auto

text \<open>
  The constructor on the options of the README's example: the session is \<open>session0\<close>.
\<close>

lemma Session_options0:
  "Session (Some options0) world0 = Inr (extend options0 default_options, session0)"
  by (simp add: Session_def extend_def default_options_def options0_def session0_def world0_def
      priv_generateExpires_def log_def Date_now_def round_div_1000_def clock0_def Let_def)

text \<open>
  \<^verbatim>\<open>loadSession\<close> in closed form. The first branch of its conditional asks for a token
  that is both \<^verbatim>\<open>undefined\<close> and the empty string, so every call takes the second branch:
  it stores the token and issues the lookup.
\<close>

lemma loadSession_eq:
  "loadSession tok cb s =
     Inr (s\<lparr>token := tok,
            world := (world s)\<lparr>
              logged := logged (world s) @
                [(''debug'', ''Socket.io-mysql-session: loadSession''),
                 (''debug'', ''Socket.io-mysql-session: loading session''),
                 (''debug'', ''Socket.io-mysql-session: query: '' @
                    format (db s) select_sql [token_value tok])],
              queries := queries (world s) @ [(select_sql, [token_value tok], Loaded cb)]\<rparr>\<rparr>)"
  by (cases tok) (simp_all add: loadSession_def priv_loadSession_def log_def db_query_def Let_def)

lemma getToken_without_token:
  "getToken None s =
     loadSession (Some '''') (Function 0)
       (log ''debug'' ''Socket.io-mysql-session: getToken []'' s)"
  by (simp add: getToken_def Let_def)

text \<open>The handler of a finished save touches nothing but the log.\<close>

lemma saveSession_done_only_logs:
  "queries (world (priv_saveSession_done error results_defined s)) = queries (world s)
   \<and> called (world (priv_saveSession_done error results_defined s)) = called (world s)
   \<and> token (priv_saveSession_done error results_defined s) = token s
   \<and> session_values (priv_saveSession_done error results_defined s) = session_values s
   \<and> expires (priv_saveSession_done error results_defined s) = expires s"
  by (simp add: priv_saveSession_done_def priv_dbCreateError_def log_def Let_def)



section \<open>The claims\<close>

text \<open>
  A call of \<^verbatim>\<open>loadSession\<close> is asynchronous: \<open>loadSession\<close> runs up to the query, and
  \<open>priv_loadSession_done\<close> is what runs when the database answers. The theorems below
  compose the two on the answer under consideration.
\<close>

text \<open>
  \<^bold>\<open>C1.\<close> The claim: \<^verbatim>\<open>loadSession("", cb)\<close> on an uninitialized engine generates a fresh
  token, persists an empty session under it and calls \<^verbatim>\<open>cb\<close> with that token and the empty
  message. The code does not: with the empty token it issues the lookup like with any
  other token, generating and persisting nothing first, and when the lookup finds no row
  the callback receives the new token with the message \<^verbatim>\<open>Session Not Found\<close>.
\<close>

theorem C1_empty_token_is_looked_up:
  assumes "JSON_stringify (session_values s) = Inr d"
    and "expiration (options s) = JNum ttl"
  shows "\<exists>s1 s2. loadSession (Some '''') (Function f) s = Inr s1
     \<and> token s1 = Some ''''
     \<and> uid_calls (world s1) = uid_calls (world s)
     \<and> called (world s1) = called (world s)
     \<and> queries (world s1) = queries (world s) @ [(select_sql, [JStr ''''], Loaded (Function f))]
     \<and> priv_loadSession_done (Function f) err (Some []) s1 = Inr s2
     \<and> called (world s2) =
         called (world s) @ [(f, Some (uids (world s) (uid_calls (world s))), ''Session Not Found'')]"
  using assms
  by (simp add: engine_defs)

theorem C1_empty_token_is_looked_up_witness:
  "JSON_stringify (session_values session0) = Inr (JStr ''{}'')
   \<and> expiration (options session0) = JNum 86400000
   \<and> (\<exists>s1 s2. loadSession (Some '''') (Function 0) session0 = Inr s1
     \<and> token s1 = Some ''''
     \<and> uid_calls (world s1) = 0
     \<and> called (world s1) = []
     \<and> queries (world s1) = [(select_sql, [JStr ''''], Loaded (Function 0))]
     \<and> priv_loadSession_done (Function 0) None (Some []) s1 = Inr s2
     \<and> called (world s2) = [(0, Some ''k3J8fQ2mZx7LpA0wYb5NcE9dRg1HsT4u'', ''Session Not Found'')])"
proof -
  have a: "JSON_stringify (session_values session0) = Inr (JStr ''{}'')"
    by (simp add: session0_def stringify_empty_object)
  have b: "expiration (options session0) = JNum 86400000"
    by (simp add: session0_def)
  show ?thesis
    using a b C1_empty_token_is_looked_up [OF a b, of 0 None]
    by (simp add: session0_def world0_def uids0_def)
qed

text \<open>
  \<^bold>\<open>C2.\<close> The claim: when the row found is expired, the session persisted under the new
  token is empty, never the old row's data. The code does not: it assigns the parsed data
  of the row to \<^verbatim>\<open>this.values\<close> before it tests the expiry and never resets it, so the save
  that follows writes the old row's data under the new token, and the engine keeps it.
\<close>

theorem C2_expired_row_data_is_kept:
  assumes "JSON_parse (data r) = Inr v"
    and "JSON_stringify v = Inr d"
    and "expiration (options s) = JNum ttl"
    and "expires_col r < round_div_1000 (clock (world s) (ticks (world s)))"
    and "uids (world s) (uid_calls (world s)) \<noteq> ''''"
  shows "\<exists>s'. priv_loadSession_done (Function f) err (Some (r # rs)) s = Inr s'
     \<and> token s' = Some (uids (world s) (uid_calls (world s)))
     \<and> session_values s' = v
     \<and> queries (world s') = queries (world s) @
          [(upsert_sql,
            [JStr (uids (world s) (uid_calls (world s))),
             JNum (round_div_1000 (clock (world s) (Suc (Suc (ticks (world s)))) + ttl)), d,
             JNum (round_div_1000 (clock (world s) (Suc (Suc (ticks (world s)))) + ttl)), d], Saved)]
     \<and> called (world s') =
         called (world s) @ [(f, Some (uids (world s) (uid_calls (world s))), ''Session Expired'')]"
  using assms
  by (simp add: engine_defs)

theorem C2_expired_row_data_is_kept_witness:
  "JSON_parse (data row0) = Inr (JObj [(''userId'', JStr ''42'')])
   \<and> JSON_stringify (JObj [(''userId'', JStr ''42'')]) = Inr (JStr json0)
   \<and> expiration (options (final (loadSession (Some token0) (Function 0) session0))) = JNum 86400000
   \<and> expires_col row0 < round_div_1000 (clock0 1)
   \<and> uids0 0 \<noteq> ''''
   \<and> (\<exists>s'. priv_loadSession_done (Function 0) None (Some [row0])
              (final (loadSession (Some token0) (Function 0) session0)) = Inr s'
         \<and> token s' = Some (uids0 0)
         \<and> uids0 0 \<noteq> token0
         \<and> session_values s' = JObj [(''userId'', JStr ''42'')]
         \<and> queries (world s') =
              [(select_sql, [JStr token0], Loaded (Function 0)),
               (upsert_sql, [JStr (uids0 0), JNum 87403, JStr json0, JNum 87403, JStr json0], Saved)]
         \<and> called (world s') = [(0, Some (uids0 0), ''Session Expired'')])"
proof -
  let ?s = "final (loadSession (Some token0) (Function 0) session0)"
  have a: "JSON_parse (data row0) = Inr (JObj [(''userId'', JStr ''42'')])"
    by (simp add: row0_def parse_json0)
  have b: "JSON_stringify (JObj [(''userId'', JStr ''42'')]) = Inr (JStr json0)"
    by (rule stringify_json0)
  have c: "expiration (options ?s) = JNum 86400000"
    by (simp add: loadSession_eq final_def session0_def)
  have d: "expires_col row0 < round_div_1000 (clock (world ?s) (ticks (world ?s)))"
    by (simp add: loadSession_eq final_def session0_def world0_def row0_def clock0_def round_div_1000_def)
  have e: "uids (world ?s) (uid_calls (world ?s)) \<noteq> ''''"
    by (simp add: loadSession_eq final_def session0_def world0_def uids0_def)
  show ?thesis
    using a b c d e C2_expired_row_data_is_kept [OF a b c d e, of 0 None "[]"]
    by (simp add: loadSession_eq final_def session0_def world0_def uids0_def token0_def row0_def
        clock0_def round_div_1000_def token_value_def)
qed

text \<open>
  \<^bold>\<open>C3.\<close> The claim: after every successful save the expiry is \<open>now + TTL\<close> at the moment of
  that save, in the persisted row and in the engine's state, and never derives from a
  value the caller supplies. The row does get it. The engine's own \<^verbatim>\<open>expires\<close> field does
  not: \<^verbatim>\<open>_saveSession\<close> computes the expiry into a local variable and leaves the field as
  it was.

  As amended: every save that reaches the database, whether \<^verbatim>\<open>_saveSession\<close> is called
  by \<^verbatim>\<open>clearSession\<close>, by \<^verbatim>\<open>set\<close> or directly, writes the expiry
  \<^verbatim>\<open>Math.round((now + options.expiration) / 1000)\<close>, with \<open>now\<close> the reading of the clock
  made in that save, and leaves the engine's \<^verbatim>\<open>expires\<close> and \<^verbatim>\<open>options\<close> unchanged.
\<close>

theorem C3_saved_expiry_is_now_plus_ttl:
  assumes "expiration (options s) = JNum ttl"
    and "token s \<noteq> Some ''''"
  shows "(\<forall>d. JSON_stringify (session_values s) = Inr d \<longrightarrow>
            (\<exists>s'. priv_saveSession s = Inr s'
               \<and> queries (world s') = queries (world s) @
                    [(upsert_sql,
                      [token_value (token s),
                       JNum (round_div_1000 (clock (world s) (ticks (world s)) + ttl)), d,
                       JNum (round_div_1000 (clock (world s) (ticks (world s)) + ttl)), d], Saved)]
               \<and> expires s' = expires s \<and> options s' = options s))
     \<and> (\<exists>s'. clearSession s = Inr s'
           \<and> queries (world s') = queries (world s) @
                [(upsert_sql,
                  [token_value (token s),
                   JNum (round_div_1000 (clock (world s) (ticks (world s)) + ttl)), JStr ''{}'',
                   JNum (round_div_1000 (clock (world s) (ticks (world s)) + ttl)), JStr ''{}''], Saved)]
           \<and> expires s' = expires s \<and> options s' = options s)
     \<and> (\<forall>k v obj d. js_put (session_values s) k v = Inr obj \<and> JSON_stringify obj = Inr d \<longrightarrow>
            (\<exists>s'. set_value k v s = Inr s'
               \<and> queries (world s') = queries (world s) @
                    [(upsert_sql,
                      [token_value (token s),
                       JNum (round_div_1000 (clock (world s) (ticks (world s)) + ttl)), d,
                       JNum (round_div_1000 (clock (world s) (ticks (world s)) + ttl)), d], Saved)]
               \<and> expires s' = expires s \<and> options s' = options s))"
  using assms
  by (simp add: engine_defs stringify_empty_object)

theorem C3_saved_expiry_is_now_plus_ttl_witness:
  "expiration (options (final (loadSession (Some token0) (Function 0) session0))) = JNum 86400000
   \<and> token (final (loadSession (Some token0) (Function 0) session0)) \<noteq> Some ''''
   \<and> (\<exists>s'. clearSession (final (loadSession (Some token0) (Function 0) session0)) = Inr s'
         \<and> queries (world s') =
              [(select_sql, [JStr token0], Loaded (Function 0)),
               (upsert_sql, [JStr token0, JNum 87401, JStr ''{}'', JNum 87401, JStr ''{}''], Saved)]
         \<and> expires s' = 87400
         \<and> expiration (options s') = JNum 86400000)"
proof -
  let ?s = "final (loadSession (Some token0) (Function 0) session0)"
  have a: "expiration (options ?s) = JNum 86400000"
    by (simp add: loadSession_eq final_def session0_def)
  have b: "token ?s \<noteq> Some ''''"
    by (simp add: loadSession_eq final_def token0_def)
  from C3_saved_expiry_is_now_plus_ttl [OF a b]
  obtain s' where h: "clearSession ?s = Inr s'"
    "queries (world s') = queries (world ?s) @
       [(upsert_sql,
         [token_value (token ?s),
          JNum (round_div_1000 (clock (world ?s) (ticks (world ?s)) + 86400000)), JStr ''{}'',
          JNum (round_div_1000 (clock (world ?s) (ticks (world ?s)) + 86400000)), JStr ''{}''], Saved)]"
    "expires s' = expires ?s" "options s' = options ?s"
    by blast
  have "clearSession ?s = Inr s'
         \<and> queries (world s') =
              [(select_sql, [JStr token0], Loaded (Function 0)),
               (upsert_sql, [JStr token0, JNum 87401, JStr ''{}'', JNum 87401, JStr ''{}''], Saved)]
         \<and> expires s' = 87400
         \<and> expiration (options s') = JNum 86400000"
    using h a
    by (simp add: loadSession_eq final_def session0_def world0_def
        clock0_def round_div_1000_def token_value_def)
  with a b show ?thesis by blast
qed

text \<open>
  The claim fails on the engine's state: a new session is created through
  \<^verbatim>\<open>loadSession\<close>, then \<^verbatim>\<open>set("userId", "42")\<close> saves it at the fourth reading of the clock.
  The row gets the expiry of that reading; the engine's \<^verbatim>\<open>expires\<close> is still another.
\<close>

theorem C3_engine_expiry_is_stale:
  "\<exists>s1 s2 s3. loadSession (Some '''') (Function 0) session0 = Inr s1
     \<and> priv_loadSession_done (Function 0) None (Some []) s1 = Inr s2
     \<and> set_value ''userId'' (JStr ''42'') s2 = Inr s3
     \<and> last (queries (world s3)) =
         (upsert_sql,
          [JStr (uids0 0), JNum (round_div_1000 (clock0 3 + 86400000)), JStr json0,
           JNum (round_div_1000 (clock0 3 + 86400000)), JStr json0], Saved)
     \<and> expires s3 \<noteq> round_div_1000 (clock0 3 + 86400000)"
  by (simp add: loadSession_eq engine_defs session0_def world0_def uids0_def clock0_def
      round_div_1000_def stringify_empty_object stringify_json0)

text \<open>
  \<^bold>\<open>C4.\<close> Whatever \<^verbatim>\<open>expiration\<close> and \<^verbatim>\<open>logger\<close> the caller puts in the options, the
  constructor leaves \<^verbatim>\<open>options.expiration = 86400000\<close> and the built-in logger in the
  caller's own object, which is the session's \<^verbatim>\<open>options\<close>; the session logs to the
  built-in logger and its first expiry is computed from 86400000. \<^verbatim>\<open>ioSession\<close> rewrites
  the options in the same way.
\<close>

theorem C4_defaults_overwrite:
  assumes "db_opt given = Some d"
  shows "\<exists>s. Session (Some given) w = Inr (extend given default_options, s)
     \<and> expiration (extend given default_options) = JNum 86400000
     \<and> logger_opt (extend given default_options) = Some Builtin_logger
     \<and> options s = extend given default_options
     \<and> logger s = Builtin_logger
     \<and> expires s = round_div_1000 (clock w (ticks w) + 86400000)
     \<and> ioSession (Some given) = Inr (extend given default_options)"
  using assms
  by (simp add: Session_def ioSession_def extend_def default_options_def engine_defs)

theorem C4_defaults_overwrite_witness:
  "db_opt options0 = Some connection0
   \<and> expiration options0 = JNum 3600
   \<and> logger_opt options0 = Some (Caller_logger 1)
   \<and> (\<exists>given' s. Session (Some options0) world0 = Inr (given', s)
         \<and> expiration given' = JNum 86400000
         \<and> logger_opt given' = Some Builtin_logger
         \<and> options s = given'
         \<and> logger s = Builtin_logger
         \<and> expires s = 87400
         \<and> ioSession (Some options0) = Inr given')"
proof -
  have a: "db_opt options0 = Some connection0"
    by (simp add: options0_def)
  from C4_defaults_overwrite [OF a, of world0]
  obtain s where h: "Session (Some options0) world0 = Inr (extend options0 default_options, s)"
    "expiration (extend options0 default_options) = JNum 86400000"
    "logger_opt (extend options0 default_options) = Some Builtin_logger"
    "options s = extend options0 default_options"
    "logger s = Builtin_logger"
    "expires s = round_div_1000 (clock world0 (ticks world0) + 86400000)"
    "ioSession (Some options0) = Inr (extend options0 default_options)"
    by blast
  have "expires s = 87400"
    using h(6) by (simp add: world0_def clock0_def round_div_1000_def)
  with h a show ?thesis
    by (simp add: options0_def)
qed

text \<open>
  \<^bold>\<open>C5.\<close> When the lookup of \<^verbatim>\<open>loadSession(T, cb)\<close> fails (the driver passes no results),
  the engine sets its token to the empty string, builds the message
  \<^verbatim>\<open>"Something terrible happened\n" + util.inspect(error)\<close>, which is not empty, calls
  \<^verbatim>\<open>cb\<close> with the empty token and that message, and issues no query after the lookup.
\<close>

theorem C5_lookup_failure:
  "\<exists>s1 s2. loadSession (Some T) (Function f) s = Inr s1
     \<and> priv_loadSession_done (Function f) err None s1 = Inr s2
     \<and> token s2 = Some ''''
     \<and> called (world s2) =
         called (world s) @ [(f, Some '''', ''Something terrible happened'' @ [nl] @ util_inspect err)]
     \<and> ''Something terrible happened'' @ [nl] @ util_inspect err \<noteq> ''''
     \<and> queries (world s2) = queries (world s1)
     \<and> queries (world s2) = queries (world s) @ [(select_sql, [JStr T], Loaded (Function f))]"
  by (simp add: engine_defs)

theorem C5_lookup_failure_witness:
  "\<exists>s1 s2. loadSession (Some token0) (Function 0) session0 = Inr s1
     \<and> priv_loadSession_done (Function 0) (Some (Db_error ''Error: connect ECONNREFUSED'')) None s1
         = Inr s2
     \<and> token s2 = Some ''''
     \<and> called (world s2) =
         [(0, Some '''', ''Something terrible happened'' @ [nl] @ ''Error: connect ECONNREFUSED'')]
     \<and> queries (world s2) = [(select_sql, [JStr token0], Loaded (Function 0))]"
proof -
  from C5_lookup_failure [of token0 0 session0 "Some (Db_error ''Error: connect ECONNREFUSED'')"]
  obtain s1 s2 where h: "loadSession (Some token0) (Function 0) session0 = Inr s1"
    "priv_loadSession_done (Function 0) (Some (Db_error ''Error: connect ECONNREFUSED'')) None s1 = Inr s2"
    "token s2 = Some ''''"
    "called (world s2) = called (world session0) @
       [(0, Some '''', ''Something terrible happened'' @ [nl] @
           util_inspect (Some (Db_error ''Error: connect ECONNREFUSED'')))]"
    "queries (world s2) = queries (world session0) @ [(select_sql, [JStr token0], Loaded (Function 0))]"
    by blast
  have "called (world s2) =
         [(0, Some '''', ''Something terrible happened'' @ [nl] @ ''Error: connect ECONNREFUSED'')]"
    using h(4) by (simp add: session0_def world0_def util_inspect_def)
  moreover have "queries (world s2) = [(select_sql, [JStr token0], Loaded (Function 0))]"
    using h(5) by (simp add: session0_def world0_def)
  ultimately show ?thesis
    using h(1) h(2) h(3) by blast
qed

text \<open>
  \<^bold>\<open>C6.\<close> The claim: \<^verbatim>\<open>loadSession\<close> never throws, and every failure, also one met while
  the data of the looked-up row is processed, reaches the caller through the message
  argument of the callback. That fails where the data of the row is not JSON:
  \<^verbatim>\<open>JSON.parse\<close> throws in the completion handler of the lookup, nothing catches it and
  the callback is never called.

  As amended: the call of \<^verbatim>\<open>loadSession\<close> itself never throws; a failed lookup and a
  missing row are reported through the message of the callback; and when \<^verbatim>\<open>JSON.parse\<close>
  rejects the data of the row, the completion handler throws that error, with the engine
  unchanged and the callback not called.
\<close>

theorem C6_only_parse_failure_escapes:
  "(\<exists>s1. loadSession tok cb s = Inr s1)
   \<and> (\<exists>s2. priv_loadSession_done (Function f) err None s = Inr s2
         \<and> called (world s2) =
             called (world s) @ [(f, Some '''', ''Something terrible happened'' @ [nl] @ util_inspect err)])
   \<and> (\<forall>d ttl. JSON_stringify (session_values s) = Inr d \<and> expiration (options s) = JNum ttl \<longrightarrow>
         (\<exists>s2. priv_loadSession_done (Function f) err (Some []) s = Inr s2
            \<and> called (world s2) =
                called (world s) @ [(f, Some (uids (world s) (uid_calls (world s))), ''Session Not Found'')]))
   \<and> (\<forall>e. JSON_parse (data r) = Inl e \<longrightarrow>
         priv_loadSession_done cb err (Some (r # rs)) s = Inl (e, s))"
proof -
  have a: "\<exists>s1. loadSession tok cb s = Inr s1"
    by (simp add: loadSession_eq)
  have b: "\<exists>s2. priv_loadSession_done (Function f) err None s = Inr s2
         \<and> called (world s2) =
             called (world s) @ [(f, Some '''', ''Something terrible happened'' @ [nl] @ util_inspect err)]"
    by (simp add: engine_defs)
  have c: "\<exists>s2. priv_loadSession_done (Function f) err (Some []) s = Inr s2
            \<and> called (world s2) =
                called (world s) @ [(f, Some (uids (world s) (uid_calls (world s))), ''Session Not Found'')]"
    if "JSON_stringify (session_values s) = Inr d" and "expiration (options s) = JNum ttl" for d ttl
    using that by (simp add: engine_defs)
  have d: "priv_loadSession_done cb err (Some (r # rs)) s = Inl (e, s)"
    if "JSON_parse (data r) = Inl e" for e
    using that by (simp add: priv_loadSession_done_def)
  from a b c d show ?thesis by blast
qed

theorem C6_only_parse_failure_escapes_witness:
  "JSON_parse (data (row0\<lparr>data := Some ''{''\<rparr>)) = Inl SyntaxError
   \<and> JSON_stringify (session_values session0) = Inr (JStr ''{}'')
   \<and> expiration (options session0) = JNum 86400000
   \<and> (\<exists>s1. loadSession (Some token0) (Function 0) session0 = Inr s1)
   \<and> (\<exists>s2. priv_loadSession_done (Function 0) None (Some []) session0 = Inr s2
         \<and> called (world s2) = [(0, Some (uids0 0), ''Session Not Found'')])
   \<and> priv_loadSession_done (Function 0) None (Some [row0\<lparr>data := Some ''{''\<rparr>]) session0
       = Inl (SyntaxError, session0)"
proof -
  have a: "JSON_parse (data (row0\<lparr>data := Some ''{''\<rparr>)) = Inl SyntaxError"
    by (simp add: parse_truncated)
  have b: "JSON_stringify (session_values session0) = Inr (JStr ''{}'')"
    by (simp add: session0_def stringify_empty_object)
  have c: "expiration (options session0) = JNum 86400000"
    by (simp add: session0_def)
  note t = C6_only_parse_failure_escapes
    [where tok = "Some token0" and cb = "Function 0" and s = session0 and f = 0 and err = None
       and r = "row0\<lparr>data := Some ''{''\<rparr>" and rs = "[]"]
  have d: "\<exists>s1. loadSession (Some token0) (Function 0) session0 = Inr s1"
    using t by blast
  have e: "\<exists>s2. priv_loadSession_done (Function 0) None (Some []) session0 = Inr s2
         \<and> called (world s2) = [(0, Some (uids0 0), ''Session Not Found'')]"
    using t b c by (simp add: session0_def world0_def)
  have f: "priv_loadSession_done (Function 0) None (Some [row0\<lparr>data := Some ''{''\<rparr>]) session0
       = Inl (SyntaxError, session0)"
    using t a by blast
  from a b c d e f show ?thesis by blast
qed

text \<open>
  The claim fails on a row whose data is the text \<^verbatim>\<open>{\<close>: the handler throws a
  SyntaxError and the callback has not been called.
\<close>

theorem C6_parse_error_is_thrown:
  "\<exists>s1. loadSession (Some token0) (Function 0) session0 = Inr s1
     \<and> priv_loadSession_done (Function 0) None
          (Some [\<lparr>sessionId = token0, expires_col = 2000, data = Some ''{''\<rparr>]) s1
        = Inl (SyntaxError, s1)
     \<and> called (world s1) = []"
  by (simp add: loadSession_eq priv_loadSession_done_def parse_truncated session0_def world0_def)

text \<open>
  \<^bold>\<open>C7.\<close> The claim: after \<^verbatim>\<open>set(k, v)\<close>, \<^verbatim>\<open>get(k)\<close> returns \<open>v\<close>, for all keys; and
  \<^verbatim>\<open>get\<close> returns the empty string for every key that is absent from the values. The code
  does not, on the names that the values object inherits from \<^verbatim>\<open>Object.prototype\<close>:
  \<^verbatim>\<open>this.values[key]\<close> finds the inherited member, which is not \<^verbatim>\<open>undefined\<close>, and
  \<^verbatim>\<open>get\<close> returns it. So \<^verbatim>\<open>get("toString")\<close> on a session that holds nothing is a
  function, not the empty string.
\<close>

theorem C7_inherited_name_is_returned:
  assumes "session_values s = JObj ps"
    and "map_of ps k = None"
    and "k \<in> set Object_prototype_methods"
  shows "\<exists>s'. get_value k s = Inr (JIntrinsic (''Object.prototype.'' @ k), s')"
  using assms
  by (auto simp add: get_value_def log_def Let_def Object_prototype_def Object_prototype_methods_def)

theorem C7_inherited_name_is_returned_witness:
  "session_values session0 = JObj []
   \<and> map_of ([] :: (string \<times> jsvalue) list) ''toString'' = None
   \<and> ''toString'' \<in> set Object_prototype_methods
   \<and> (\<exists>s'. get_value ''toString'' session0 = Inr (JIntrinsic ''Object.prototype.toString'', s'))"
proof -
  have a: "session_values session0 = JObj []"
    by (simp add: session0_def)
  have b: "map_of ([] :: (string \<times> jsvalue) list) ''toString'' = None"
    by simp
  have c: "''toString'' \<in> set Object_prototype_methods"
    by (simp add: Object_prototype_methods_def)
  show ?thesis
    using a b c C7_inherited_name_is_returned [OF a b c]
    by simp
qed

text \<open>
  The first half of the claim fails on the key \<^verbatim>\<open>__proto__\<close>: the write of a primitive
  goes to the setter inherited from \<^verbatim>\<open>Object.prototype\<close>, which ignores it, and the read
  that follows returns the prototype.
\<close>

lemma set_proto_is_ignored:
  assumes "session_values s = JObj ps"
    and "map_of ps ''__proto__'' = None"
    and "\<not> is_object_or_null v"
    and "JSON_stringify (JObj ps) = Inr d"
    and "expiration (options s) = JNum ttl"
  shows "\<exists>s1 s2. set_value ''__proto__'' v s = Inr s1 \<and> session_values s1 = JObj ps
     \<and> get_value ''__proto__'' s1 = Inr (JIntrinsic ''Object.prototype'', s2)"
  using assms
  by (simp add: engine_defs Object_prototype_def)

lemma set_proto_on_new_session:
  "\<exists>s1 s2. set_value ''__proto__'' (JStr ''42'') session0 = Inr s1
     \<and> get_value ''__proto__'' s1 = Inr (JIntrinsic ''Object.prototype'', s2)"
proof -
  have "\<exists>s1 s2. set_value ''__proto__'' (JStr ''42'') session0 = Inr s1
     \<and> session_values s1 = JObj []
     \<and> get_value ''__proto__'' s1 = Inr (JIntrinsic ''Object.prototype'', s2)"
    by (rule set_proto_is_ignored [where ttl = 86400000 and d = "JStr ''{}''"])
       (simp_all add: session0_def is_object_or_null_def stringify_empty_object)
  then show ?thesis by blast
qed

text \<open>
  On every other key, and on a session whose values are an ordinary object, the two halves
  of the claim hold: the value set is the value read, and a name that is neither an own
  property nor inherited reads as the empty string.
\<close>

lemma set_then_get:
  assumes "session_values s = JObj ps"
    and "k \<noteq> ''__proto__''"
    and "v \<noteq> JUndefined"
    and "JSON_stringify (JObj (own_put ps k v)) = Inr d"
    and "expiration (options s) = JNum ttl"
  shows "\<exists>s1 s2. set_value k v s = Inr s1 \<and> get_value k s1 = Inr (v, s2)"
  using assms
  by (simp add: engine_defs map_of_own_put)

lemma get_absent:
  assumes "session_values s = JObj ps"
    and "map_of ps k = None"
    and "k \<notin> set (''constructor'' # ''__proto__'' # Object_prototype_methods)"
  shows "\<exists>s'. get_value k s = Inr (JStr '''', s')"
  using assms
  by (simp add: get_value_def log_def Let_def Object_prototype_def)



text \<open>
  \<^bold>\<open>C9.\<close> On an engine that holds a token, two calls of \<^verbatim>\<open>clearSession\<close> in a row each
  leave the values the empty object and each issue one upsert; the data of both upserts is
  the text \<^verbatim>\<open>{}\<close>.
\<close>

theorem C9_clearSession_twice:
  assumes "token s \<noteq> Some ''''"
    and "expiration (options s) = JNum ttl"
  shows "\<exists>s1 s2. clearSession s = Inr s1 \<and> session_values s1 = JObj []
     \<and> clearSession s1 = Inr s2 \<and> session_values s2 = JObj []
     \<and> queries (world s2) = queries (world s) @
          [(upsert_sql,
            [token_value (token s),
             JNum (round_div_1000 (clock (world s) (ticks (world s)) + ttl)), JStr ''{}'',
             JNum (round_div_1000 (clock (world s) (ticks (world s)) + ttl)), JStr ''{}''], Saved),
           (upsert_sql,
            [token_value (token s),
             JNum (round_div_1000 (clock (world s) (Suc (ticks (world s))) + ttl)), JStr ''{}'',
             JNum (round_div_1000 (clock (world s) (Suc (ticks (world s))) + ttl)), JStr ''{}''], Saved)]"
  using assms
  by (simp add: engine_defs stringify_empty_object)

theorem C9_clearSession_twice_witness:
  "token (final (loadSession (Some token0) (Function 0) session0)) \<noteq> Some ''''
   \<and> expiration (options (final (loadSession (Some token0) (Function 0) session0))) = JNum 86400000
   \<and> (\<exists>s1 s2. clearSession (final (loadSession (Some token0) (Function 0) session0)) = Inr s1
         \<and> session_values s1 = JObj []
         \<and> clearSession s1 = Inr s2 \<and> session_values s2 = JObj []
         \<and> queries (world s2) =
              [(select_sql, [JStr token0], Loaded (Function 0)),
               (upsert_sql, [JStr token0, JNum 87401, JStr ''{}'', JNum 87401, JStr ''{}''], Saved),
               (upsert_sql, [JStr token0, JNum 87402, JStr ''{}'', JNum 87402, JStr ''{}''], Saved)])"
proof -
  let ?s = "final (loadSession (Some token0) (Function 0) session0)"
  have a: "token ?s \<noteq> Some ''''"
    by (simp add: loadSession_eq final_def token0_def)
  have b: "expiration (options ?s) = JNum 86400000"
    by (simp add: loadSession_eq final_def session0_def)
  from C9_clearSession_twice [OF a b]
  obtain s1 s2 where h: "clearSession ?s = Inr s1" "session_values s1 = JObj []"
    "clearSession s1 = Inr s2" "session_values s2 = JObj []"
    "queries (world s2) = queries (world ?s) @
          [(upsert_sql,
            [token_value (token ?s),
             JNum (round_div_1000 (clock (world ?s) (ticks (world ?s)) + 86400000)), JStr ''{}'',
             JNum (round_div_1000 (clock (world ?s) (ticks (world ?s)) + 86400000)), JStr ''{}''], Saved),
           (upsert_sql,
            [token_value (token ?s),
             JNum (round_div_1000 (clock (world ?s) (Suc (ticks (world ?s))) + 86400000)), JStr ''{}'',
             JNum (round_div_1000 (clock (world ?s) (Suc (ticks (world ?s))) + 86400000)), JStr ''{}''], Saved)]"
    by blast
  have "queries (world s2) =
              [(select_sql, [JStr token0], Loaded (Function 0)),
               (upsert_sql, [JStr token0, JNum 87401, JStr ''{}'', JNum 87401, JStr ''{}''], Saved),
               (upsert_sql, [JStr token0, JNum 87402, JStr ''{}'', JNum 87402, JStr ''{}''], Saved)]"
    using h(5)
    by (simp add: loadSession_eq final_def session0_def world0_def
        clock0_def round_div_1000_def token_value_def)
  with a b h(1) h(2) h(3) h(4) show ?thesis by blast
qed



end
